theory Spec2Isabelle
  imports Complex_Main "HOL-Library.AList"
begin

section \<open>Python values used by gdocs-cli\<close>

text \<open>
  The command-line client is Python. Its unbounded integers are \<^typ>\<open>int\<close>, its
  strings are \<^typ>\<open>string\<close> with one \<^typ>\<open>char\<close> per code point (the text is taken to be
  ASCII, so that \<open>len\<close> is \<^const>\<open>length\<close> and \<open>str.upper\<close> only moves \<open>a\<close>..\<open>z\<close>), and
  a float is the rational it denotes. A raised exception is a value of the type below;
  a function that can raise returns \<open>exception + 'a\<close> with \<open>Inl\<close> for the raise.
\<close>

datatype exception =
    KeyError string
  | IndexError
  | ValueError
  | Exit int
  | TokenExpiredError "string option"
  | HttpError int
  | Exception string
  | AccountNotFoundError string "string list"
  | NoAccountConfiguredError

abbreviation NEWLINE :: char where
  "NEWLINE \<equiv> CHR 0x0A"


text \<open>\<open>sep.join(parts)\<close>.\<close>

fun join :: "string \<Rightarrow> string list \<Rightarrow> string" where
  "join sep [] = []"
| "join sep [x] = x"
| "join sep (x # y # ys) = x @ sep @ join sep (y # ys)"

text \<open>
  \<open>str.isspace\<close> on one ASCII character: tab, line feed, vertical tab, form feed,
  carriage return, the four separators \<open>0x1C\<close>..\<open>0x1F\<close> and the space.
\<close>

definition isspace :: "char \<Rightarrow> bool" where
  "isspace c = (c \<in> set [CHR 0x09, CHR 0x0A, CHR 0x0B, CHR 0x0C, CHR 0x0D,
                          CHR 0x1C, CHR 0x1D, CHR 0x1E, CHR 0x1F, CHR 0x20])"

definition lstrip :: "(char \<Rightarrow> bool) \<Rightarrow> string \<Rightarrow> string" where
  "lstrip p s = dropWhile p s"

definition rstrip :: "(char \<Rightarrow> bool) \<Rightarrow> string \<Rightarrow> string" where
  "rstrip p s = rev (dropWhile p (rev s))"

text \<open>\<open>s.strip()\<close>, \<open>s.rstrip("\n")\<close> and \<open>s.lstrip("#")\<close>.\<close>

definition strip :: "string \<Rightarrow> string" where
  "strip s = rstrip isspace (lstrip isspace s)"

definition rstrip_newline :: "string \<Rightarrow> string" where
  "rstrip_newline s = rstrip (\<lambda>c. c = NEWLINE) s"

definition lstrip_hash :: "string \<Rightarrow> string" where
  "lstrip_hash s = lstrip (\<lambda>c. c = CHR ''#'') s"

text \<open>\<open>s.upper()\<close> on ASCII text.\<close>

definition upper_char :: "char \<Rightarrow> char" where
  "upper_char c =
     (case map_of (zip ''abcdefghijklmnopqrstuvwxyz'' ''ABCDEFGHIJKLMNOPQRSTUVWXYZ'') c of
        Some u \<Rightarrow> u
      | None \<Rightarrow> c)"

definition upper :: "string \<Rightarrow> string" where
  "upper s = map upper_char s"

text \<open>\<open>str(n)\<close> for an integer, as the f-strings of the commands print it.\<close>

definition digit_char :: "nat \<Rightarrow> char" where
  "digit_char d = ''0123456789'' ! d"

function str_nat :: "nat \<Rightarrow> string" where
  "str_nat n = (if n < 10 then [digit_char n] else str_nat (n div 10) @ [digit_char (n mod 10)])"
  by pat_completeness auto
termination
  by (relation "measure (\<lambda>n. n)") auto

definition str_int :: "int \<Rightarrow> string" where
  "str_int i = (if i < 0 then CHR ''-'' # str_nat (nat (- i)) else str_nat (nat i))"

text \<open>
  \<open>xs[i]\<close> on a list: a negative index counts from the end, and an index outside
  \<open>-len(xs) .. len(xs) - 1\<close> raises \<open>IndexError\<close>.
\<close>

definition getitem :: "'a list \<Rightarrow> int \<Rightarrow> exception + 'a" where
  "getitem xs i =
     (if 0 \<le> i \<and> i < int (length xs) then Inr (xs ! nat i)
      else if i < 0 \<and> - int (length xs) \<le> i then Inr (xs ! nat (int (length xs) + i))
      else Inl IndexError)"

text \<open>The truth value of a \<open>str | None\<close> and of a \<open>float | None\<close>.\<close>

definition truthy_str :: "string option \<Rightarrow> bool" where
  "truthy_str x = (case x of None \<Rightarrow> False | Some s \<Rightarrow> s \<noteq> [])"

definition truthy_float :: "rat option \<Rightarrow> bool" where
  "truthy_float x = (case x of None \<Rightarrow> False | Some q \<Rightarrow> q \<noteq> 0)"

text \<open>
  \<open>int(s, 16)\<close>: surrounding C whitespace is skipped, a sign and a \<open>0x\<close> prefix are
  accepted, the digits may be separated by single underscores, and anything else raises
  \<open>ValueError\<close>.
\<close>

definition int_isspace :: "char \<Rightarrow> bool" where
  "int_isspace c = (c \<in> set [CHR 0x09, CHR 0x0A, CHR 0x0B, CHR 0x0C, CHR 0x0D, CHR 0x20])"

definition hex_digit :: "char \<Rightarrow> int option" where
  "hex_digit c =
     map_of (zip ''0123456789abcdef'' [0, 1, 2, 3, 4, 5, 6, 7, 8, 9, 10, 11, 12, 13, 14, 15]
             @ zip ''ABCDEF'' [10, 11, 12, 13, 14, 15]) c"

fun digits_ok :: "string \<Rightarrow> bool" where
  "digits_ok [] = False"
| "digits_ok [c] = (hex_digit c \<noteq> None)"
| "digits_ok (c # d # cs) =
     (hex_digit c \<noteq> None \<and> (if d = CHR ''_'' then digits_ok cs else digits_ok (d # cs)))"

definition digits_value :: "string \<Rightarrow> int" where
  "digits_value ds = foldl (\<lambda>acc c. case hex_digit c of Some d \<Rightarrow> 16 * acc + d | None \<Rightarrow> acc) 0 ds"

definition int16 :: "string \<Rightarrow> exception + int" where
  "int16 s =
     (let s1 = dropWhile int_isspace s;
          sgn = (case s1 of c # r \<Rightarrow> if c = CHR ''-'' then - 1 else 1 | [] \<Rightarrow> (1::int));
          s2 = (case s1 of c # r \<Rightarrow> if c = CHR ''+'' \<or> c = CHR ''-'' then r else s1 | [] \<Rightarrow> s1);
          s3 = (case s2 of
                  z # x # r \<Rightarrow>
                    if z = CHR ''0'' \<and> (x = CHR ''x'' \<or> x = CHR ''X'')
                    then (case r of u # r' \<Rightarrow> if u = CHR ''_'' then r' else r | [] \<Rightarrow> r)
                    else s2
                | _ \<Rightarrow> s2);
          ds = rev (dropWhile int_isspace (rev s3))
      in if digits_ok ds then Inr (sgn * digits_value ds) else Inl ValueError)"

text \<open>\<open>s[a:b]\<close> for \<open>0 \<le> a \<le> b\<close>.\<close>

definition slice :: "string \<Rightarrow> nat \<Rightarrow> nat \<Rightarrow> string" where
  "slice s a b = take (b - a) (drop a s)"

subsection \<open>Dictionaries\<close>

text \<open>
  The API payloads are nested Python dictionaries. A dictionary is an association list
  in insertion order; \<open>d[k] = v\<close> is \<^const>\<open>AList.update\<close>, which overwrites in place or
  appends.
\<close>

datatype json =
    JNone
  | JBool bool
  | JInt int
  | JFloat rat
  | JStr string
  | JList "json list"
  | JDict "(string \<times> json) list"

text \<open>\<open>d[k]\<close> on a payload, \<open>KeyError\<close> when the key is absent or the value is no dictionary.\<close>

definition item :: "json \<Rightarrow> string \<Rightarrow> exception + json" where
  "item d k =
     (case d of
        JDict kvs \<Rightarrow> (case map_of kvs k of Some v \<Rightarrow> Inr v | None \<Rightarrow> Inl (KeyError k))
      | _ \<Rightarrow> Inl (KeyError k))"

definition keys :: "json \<Rightarrow> string list" where
  "keys d = (case d of JDict kvs \<Rightarrow> map fst kvs | _ \<Rightarrow> [])"

section \<open>models/element.py\<close>

datatype NamedStyleType =
    NORMAL_TEXT
  | TITLE
  | SUBTITLE
  | HEADING_1
  | HEADING_2
  | HEADING_3
  | HEADING_4
  | HEADING_5
  | HEADING_6

text \<open>The members in definition order, and \<open>s.name\<close> and \<open>s.value\<close> of a member.\<close>

definition NamedStyleType_members :: "NamedStyleType list" where
  "NamedStyleType_members =
     [NORMAL_TEXT, TITLE, SUBTITLE, HEADING_1, HEADING_2, HEADING_3, HEADING_4, HEADING_5,
      HEADING_6]"

fun style_name :: "NamedStyleType \<Rightarrow> string" where
  "style_name NORMAL_TEXT = ''NORMAL_TEXT''"
| "style_name TITLE = ''TITLE''"
| "style_name SUBTITLE = ''SUBTITLE''"
| "style_name HEADING_1 = ''HEADING_1''"
| "style_name HEADING_2 = ''HEADING_2''"
| "style_name HEADING_3 = ''HEADING_3''"
| "style_name HEADING_4 = ''HEADING_4''"
| "style_name HEADING_5 = ''HEADING_5''"
| "style_name HEADING_6 = ''HEADING_6''"

fun style_value :: "NamedStyleType \<Rightarrow> string" where
  "style_value NORMAL_TEXT = ''NORMAL_TEXT''"
| "style_value TITLE = ''TITLE''"
| "style_value SUBTITLE = ''SUBTITLE''"
| "style_value HEADING_1 = ''HEADING_1''"
| "style_value HEADING_2 = ''HEADING_2''"
| "style_value HEADING_3 = ''HEADING_3''"
| "style_value HEADING_4 = ''HEADING_4''"
| "style_value HEADING_5 = ''HEADING_5''"
| "style_value HEADING_6 = ''HEADING_6''"

text \<open>\<open>NamedStyleType[key]\<close>: the member of that name, or \<open>KeyError\<close>.\<close>

definition NamedStyleType_getitem :: "string \<Rightarrow> exception + NamedStyleType" where
  "NamedStyleType_getitem key =
     (case find (\<lambda>s. style_name s = key) NamedStyleType_members of
        Some s \<Rightarrow> Inr s
      | None \<Rightarrow> Inl (KeyError key))"

text \<open>The dataclass \<open>TextStyle\<close>; \<open>TextStyle()\<close> is \<open>TextStyle_default\<close>.\<close>

record TextStyle =
  bold :: bool
  italic :: bool
  underline :: bool
  strikethrough :: bool
  font_size :: "rat option"
  font_family :: "string option"
  foreground_color :: "string option"
  background_color :: "string option"
  link_url :: "string option"

definition TextStyle_default :: TextStyle where
  "TextStyle_default =
     \<lparr>bold = False, italic = False, underline = False, strikethrough = False,
      font_size = None, font_family = None, foreground_color = None,
      background_color = None, link_url = None\<rparr>"

section \<open>utils/request\_builder.py\<close>

text \<open>
  Every builder returns the dictionary the source returns. The idiom
  \<open>if segment_id: d["segmentId"] = segment_id\<close> is \<open>with_segment_id\<close>.
\<close>

definition with_segment_id :: "string option \<Rightarrow> (string \<times> json) list \<Rightarrow> (string \<times> json) list" where
  "with_segment_id segment_id d =
     (case segment_id of
        Some s \<Rightarrow> if s \<noteq> [] then AList.update ''segmentId'' (JStr s) d else d
      | None \<Rightarrow> d)"

definition insert_text_request :: "string \<Rightarrow> int \<Rightarrow> string option \<Rightarrow> json" where
  "insert_text_request text index segment_id =
     (let location = with_segment_id segment_id [(''index'', JInt index)]
      in JDict [(''insertText'', JDict [(''location'', JDict location), (''text'', JStr text)])])"

definition insert_text_at_end_request :: "string \<Rightarrow> string option \<Rightarrow> json" where
  "insert_text_at_end_request text segment_id =
     (let location = [(''endOfSegmentLocation'', JDict (with_segment_id segment_id []))]
      in JDict [(''insertText'', JDict (AList.update ''text'' (JStr text) location))])"

text \<open>
  \<open>_parse_color\<close>: the three components are read in order, so the first malformed one
  raises. The quotient by \<open>255.0\<close> is kept as the exact rational.
\<close>

definition parse_color :: "string \<Rightarrow> exception + json" where
  "parse_color hex_color =
     (let h = lstrip_hash hex_color in
      case int16 (slice h 0 2) of
        Inl e \<Rightarrow> Inl e
      | Inr r \<Rightarrow>
          (case int16 (slice h 2 4) of
             Inl e \<Rightarrow> Inl e
           | Inr g \<Rightarrow>
               (case int16 (slice h 4 6) of
                  Inl e \<Rightarrow> Inl e
                | Inr b \<Rightarrow>
                    Inr (JDict [(''color'', JDict [(''rgbColor'',
                           JDict [(''red'', JFloat (of_int r / 255)),
                                  (''green'', JFloat (of_int g / 255)),
                                  (''blue'', JFloat (of_int b / 255))])])]))))"

text \<open>
  \<open>update_text_style_request\<close> grows two locals, the dictionary \<open>text_style\<close> and the
  list \<open>fields\<close>; \<open>put k v\<close> is the pair of statements
  \<open>text_style[k] = v; fields.append(k)\<close> on them.
\<close>

type_synonym style_acc = "(string \<times> json) list \<times> string list"

definition put :: "string \<Rightarrow> json \<Rightarrow> style_acc \<Rightarrow> style_acc" where
  "put k v acc = (AList.update k v (fst acc), snd acc @ [k])"

definition put_color :: "string \<Rightarrow> string option \<Rightarrow> style_acc \<Rightarrow> exception + style_acc" where
  "put_color k color acc =
     (case color of
        Some h \<Rightarrow>
          if h \<noteq> [] then (case parse_color h of Inl e \<Rightarrow> Inl e | Inr v \<Rightarrow> Inr (put k v acc))
          else Inr acc
      | None \<Rightarrow> Inr acc)"

definition update_text_style_request ::
  "int \<Rightarrow> int \<Rightarrow> TextStyle \<Rightarrow> string option \<Rightarrow> exception + json" where
  "update_text_style_request start_index end_index style segment_id =
     (let acc = ([], []);
          acc = (if bold style then put ''bold'' (JBool True) acc else acc);
          acc = (if italic style then put ''italic'' (JBool True) acc else acc);
          acc = (if underline style then put ''underline'' (JBool True) acc else acc);
          acc = (if strikethrough style then put ''strikethrough'' (JBool True) acc else acc);
          acc = (case font_size style of
                   Some q \<Rightarrow>
                     if q \<noteq> 0
                     then put ''fontSize'' (JDict [(''magnitude'', JFloat q), (''unit'', JStr ''PT'')]) acc
                     else acc
                 | None \<Rightarrow> acc);
          acc = (case font_family style of
                   Some f \<Rightarrow>
                     if f \<noteq> [] then put ''weightedFontFamily'' (JDict [(''fontFamily'', JStr f)]) acc
                     else acc
                 | None \<Rightarrow> acc);
          acc = (case link_url style of
                   Some u \<Rightarrow> if u \<noteq> [] then put ''link'' (JDict [(''url'', JStr u)]) acc else acc
                 | None \<Rightarrow> acc)
      in case put_color ''foregroundColor'' (foreground_color style) acc of
           Inl e \<Rightarrow> Inl e
         | Inr acc \<Rightarrow>
             (case put_color ''backgroundColor'' (background_color style) acc of
                Inl e \<Rightarrow> Inl e
              | Inr acc \<Rightarrow>
                  (let range_spec =
                         with_segment_id segment_id
                           [(''startIndex'', JInt start_index), (''endIndex'', JInt end_index)]
                   in Inr (JDict [(''updateTextStyle'',
                             JDict [(''range'', JDict range_spec),
                                    (''textStyle'', JDict (fst acc)),
                                    (''fields'', JStr (join '','' (snd acc)))])]))))"

definition apply_named_style_request ::
  "int \<Rightarrow> int \<Rightarrow> NamedStyleType \<Rightarrow> string option \<Rightarrow> json" where
  "apply_named_style_request start_index end_index named_style segment_id =
     (let range_spec =
            with_segment_id segment_id
              [(''startIndex'', JInt start_index), (''endIndex'', JInt end_index)]
      in JDict [(''updateParagraphStyle'',
           JDict [(''range'', JDict range_spec),
                  (''paragraphStyle'', JDict [(''namedStyleType'', JStr (style_value named_style))]),
                  (''fields'', JStr ''namedStyleType'')])])"

text \<open>
  The table builders receive \<open>table["start_index"]\<close>, which is \<open>None\<close> when the
  element carried no \<open>startIndex\<close>; the value is passed on as it is.
\<close>

definition json_int :: "int option \<Rightarrow> json" where
  "json_int x = (case x of Some i \<Rightarrow> JInt i | None \<Rightarrow> JNone)"

definition insert_table_row_request :: "int option \<Rightarrow> int \<Rightarrow> bool \<Rightarrow> json" where
  "insert_table_row_request table_start_index row_index insert_below =
     JDict [(''insertTableRow'',
       JDict [(''tableCellLocation'',
                JDict [(''tableStartLocation'', JDict [(''index'', json_int table_start_index)]),
                       (''rowIndex'', JInt row_index),
                       (''columnIndex'', JInt 0)]),
              (''insertBelow'', JBool insert_below)])]"

definition delete_table_row_request :: "int option \<Rightarrow> int \<Rightarrow> json" where
  "delete_table_row_request table_start_index row_index =
     JDict [(''deleteTableRow'',
       JDict [(''tableCellLocation'',
                JDict [(''tableStartLocation'', JDict [(''index'', json_int table_start_index)]),
                       (''rowIndex'', JInt row_index),
                       (''columnIndex'', JInt 0)])])]"

definition insert_table_column_request :: "int option \<Rightarrow> int \<Rightarrow> bool \<Rightarrow> json" where
  "insert_table_column_request table_start_index column_index insert_right =
     JDict [(''insertTableColumn'',
       JDict [(''tableCellLocation'',
                JDict [(''tableStartLocation'', JDict [(''index'', json_int table_start_index)]),
                       (''rowIndex'', JInt 0),
                       (''columnIndex'', JInt column_index)]),
              (''insertRight'', JBool insert_right)])]"

definition delete_table_column_request :: "int option \<Rightarrow> int \<Rightarrow> json" where
  "delete_table_column_request table_start_index column_index =
     JDict [(''deleteTableColumn'',
       JDict [(''tableCellLocation'',
                JDict [(''tableStartLocation'', JDict [(''index'', json_int table_start_index)]),
                       (''rowIndex'', JInt 0),
                       (''columnIndex'', JInt column_index)])])]"

section \<open>The document tree of the API\<close>

text \<open>
  \<open>documents().get\<close> answers with nested dictionaries. The keys the client reads are the
  fields below; a key the client reads with \<open>in\<close> or with a \<open>None\<close> default is an
  \<open>option\<close>, an absent list is the empty list, an absent \<open>content\<close> string is empty and
  an absent row or column count is \<open>0\<close>, as the \<open>.get\<close> defaults of the source have it.
\<close>

datatype text_run = TextRun (run_content: string)

datatype paragraph_element = ParagraphElement (textRun: "text_run option")

datatype paragraph_dict =
  Paragraph (elements: "paragraph_element list") (namedStyleType: "string option")

datatype structural_element =
    StructuralElement (startIndex: "int option") (endIndex: "int option")
      (get_paragraph: "paragraph_dict option") (get_table: "table option")
and table = Table (rows_of: int) (columns_of: int) (tableRows: "table_row list")
and table_row = TableRow (tableCells: "table_cell list")
and table_cell = TableCell (cell_content: "structural_element list")

datatype document = Document (title: "string option") (body_content: "structural_element list")

section \<open>cli/content.py: reading a document\<close>

fun extract_text_from_paragraph_loop :: "paragraph_element list \<Rightarrow> string list \<Rightarrow> string list" where
  "extract_text_from_paragraph_loop [] text_parts = text_parts"
| "extract_text_from_paragraph_loop (elem # elems) text_parts =
     extract_text_from_paragraph_loop elems
       (case textRun elem of
          Some r \<Rightarrow> text_parts @ [run_content r]
        | None \<Rightarrow> text_parts)"

definition extract_text_from_paragraph :: "paragraph_dict \<Rightarrow> string" where
  "extract_text_from_paragraph p = join [] (extract_text_from_paragraph_loop (elements p) [])"

definition get_paragraph_style :: "paragraph_dict \<Rightarrow> string option" where
  "get_paragraph_style p = namedStyleType p"

fun extract_cell_text_loop :: "structural_element list \<Rightarrow> string list \<Rightarrow> string list" where
  "extract_cell_text_loop [] text_parts = text_parts"
| "extract_cell_text_loop (element # rest) text_parts =
     extract_cell_text_loop rest
       (case get_paragraph element of
          Some p \<Rightarrow> text_parts @ [extract_text_from_paragraph p]
        | None \<Rightarrow> text_parts)"

definition extract_cell_text :: "table_cell \<Rightarrow> string" where
  "extract_cell_text cell = strip (join [] (extract_cell_text_loop (cell_content cell) []))"

text \<open>The loop of \<open>_table_to_markdown\<close> over \<open>enumerate(rows)\<close>.\<close>

fun table_to_markdown_loop :: "nat \<Rightarrow> table_row list \<Rightarrow> string list \<Rightarrow> string list" where
  "table_to_markdown_loop row_idx [] markdown_rows = markdown_rows"
| "table_to_markdown_loop row_idx (row # rows) markdown_rows =
     (let cells = tableCells row;
          cell_texts = map extract_cell_text cells;
          markdown_rows = markdown_rows @ [''| '' @ join '' | '' cell_texts @ '' |''];
          markdown_rows =
            (if row_idx = 0
             then markdown_rows @ [''| '' @ join '' | '' (replicate (length cells) ''---'') @ '' |'']
             else markdown_rows)
      in table_to_markdown_loop (Suc row_idx) rows markdown_rows)"

definition table_to_markdown :: "table \<Rightarrow> string" where
  "table_to_markdown t =
     (let rows = tableRows t
      in if rows = [] then [] else join [NEWLINE] (table_to_markdown_loop 0 rows []))"

text \<open>The heading chain of \<open>_content_to_markdown\<close>, for a non-empty \<open>text\<close>.\<close>

definition heading_markdown :: "string option \<Rightarrow> string \<Rightarrow> string" where
  "heading_markdown style text =
     (if style = Some ''TITLE'' then ''# '' @ text @ [NEWLINE]
      else if style = Some ''SUBTITLE'' then ''*'' @ text @ ''*'' @ [NEWLINE]
      else if style = Some ''HEADING_1'' then ''# '' @ text @ [NEWLINE]
      else if style = Some ''HEADING_2'' then ''## '' @ text @ [NEWLINE]
      else if style = Some ''HEADING_3'' then ''### '' @ text @ [NEWLINE]
      else if style = Some ''HEADING_4'' then ''#### '' @ text @ [NEWLINE]
      else if style = Some ''HEADING_5'' then ''##### '' @ text @ [NEWLINE]
      else if style = Some ''HEADING_6'' then ''###### '' @ text @ [NEWLINE]
      else text @ [NEWLINE])"

fun content_to_markdown_loop :: "structural_element list \<Rightarrow> string list \<Rightarrow> string list" where
  "content_to_markdown_loop [] markdown_parts = markdown_parts"
| "content_to_markdown_loop (element # rest) markdown_parts =
     content_to_markdown_loop rest
       (case get_paragraph element of
          Some p \<Rightarrow>
            (let text = rstrip_newline (extract_text_from_paragraph p)
             in if text = [] then markdown_parts
                else markdown_parts @ [heading_markdown (get_paragraph_style p) text])
        | None \<Rightarrow>
            (case get_table element of
               Some t \<Rightarrow> markdown_parts @ [[NEWLINE] @ table_to_markdown t @ [NEWLINE]]
             | None \<Rightarrow> markdown_parts))"

definition content_to_markdown :: "structural_element list \<Rightarrow> string" where
  "content_to_markdown content = join [NEWLINE] (content_to_markdown_loop content [])"





section \<open>services/docs.py: the remote boundary\<close>

text \<open>
  The commands reach the document service through \<open>get_document_content\<close> and
  \<open>batch_update\<close> only. What the service answers is not the client's to decide, so it
  is a parameter: a \<open>remote\<close> over a state \<open>'w\<close> of the service, each call answering
  with a result or with the exception the call raises. A run of a command threads that
  state and the log of what the command did, in order: its remote calls and its output.
\<close>

datatype event =
    GetDocumentContent string "string option"
  | BatchUpdate string "json list" "string option"
  | Echo string
  | EchoErr string
  | PrintJson json
  | PrintSuccess string

record 'w remote =
  documents_get :: "'w \<Rightarrow> string \<Rightarrow> string option \<Rightarrow> (exception + document) \<times> 'w"
  documents_batchUpdate ::
    "'w \<Rightarrow> string \<Rightarrow> json list \<Rightarrow> string option \<Rightarrow> (exception + json) \<times> 'w"

type_synonym ('w, 'a) run = "'w \<times> event list \<Rightarrow> (exception + 'a) \<times> 'w \<times> event list"

definition returns :: "'a \<Rightarrow> ('w, 'a) run" where
  "returns x = (\<lambda>s. (Inr x, s))"

definition raise :: "exception \<Rightarrow> ('w, 'a) run" where
  "raise e = (\<lambda>s. (Inl e, s))"

definition and_then :: "('w, 'a) run \<Rightarrow> ('a \<Rightarrow> ('w, 'b) run) \<Rightarrow> ('w, 'b) run" where
  "and_then m f = (\<lambda>s. case m s of (Inl e, s') \<Rightarrow> (Inl e, s') | (Inr x, s') \<Rightarrow> f x s')"

definition emit :: "event \<Rightarrow> ('w, unit) run" where
  "emit ev = (\<lambda>(w, log). (Inr (), w, log @ [ev]))"

definition get_document_content :: "'w remote \<Rightarrow> string \<Rightarrow> string option \<Rightarrow> ('w, document) run" where
  "get_document_content srv document_id account =
     (\<lambda>(w, log).
        case documents_get srv w document_id account of
          (r, w') \<Rightarrow> (r, w', log @ [GetDocumentContent document_id account]))"

definition batch_update ::
  "'w remote \<Rightarrow> string \<Rightarrow> json list \<Rightarrow> string option \<Rightarrow> ('w, json) run" where
  "batch_update srv document_id requests account =
     (\<lambda>(w, log).
        case documents_batchUpdate srv w document_id requests account of
          (r, w') \<Rightarrow> (r, w', log @ [BatchUpdate document_id requests account]))"

text \<open>A command starts on an empty log; \<open>outcome\<close> is \<open>Inl\<close> of the exception it ended in.\<close>

definition execute :: "('w, 'a) run \<Rightarrow> 'w \<Rightarrow> (exception + 'a) \<times> 'w \<times> event list" where
  "execute c w = c (w, [])"

definition outcome :: "(exception + 'a) \<times> 'w \<times> event list \<Rightarrow> exception + 'a" where
  "outcome r = fst r"

definition events :: "(exception + 'a) \<times> 'w \<times> event list \<Rightarrow> event list" where
  "events r = snd (snd r)"

fun is_remote_call :: "event \<Rightarrow> bool" where
  "is_remote_call (GetDocumentContent d a) = True"
| "is_remote_call (BatchUpdate d rs a) = True"
| "is_remote_call ev = False"

fun is_batch_update :: "event \<Rightarrow> bool" where
  "is_batch_update (BatchUpdate d rs a) = True"
| "is_batch_update ev = False"

section \<open>utils/output.py\<close>

definition print_json :: "json \<Rightarrow> ('w, unit) run" where
  "print_json data = emit (PrintJson data)"

definition print_success :: "bool \<Rightarrow> string \<Rightarrow> ('w, unit) run" where
  "print_success json_mode message = (if json_mode then returns () else emit (PrintSuccess message))"

section \<open>cli/content.py: insert and append\<close>

text \<open>
  The bodies of the commands, as the \<open>require_auth\<close> wrapper calls them once its check
  has passed; \<open>json_mode\<close> is the global flag \<open>is_json_mode()\<close> reads. The handler of the
  \<open>KeyError\<close> of the heading lookup is the same in both commands. In \<open>append_command\<close>
  the heading is read with \<^const>\<open>the\<close> inside the branch \<open>if heading:\<close> only. The
  options \<open>--bold\<close> and \<open>--italic\<close> are \<open>bold_opt\<close> and \<open>italic_opt\<close>.
\<close>

definition invalid_heading :: "string \<Rightarrow> ('w, 'a) run" where
  "invalid_heading heading =
     (let valid_styles = join '', '' (map style_name NamedStyleType_members)
      in and_then (emit (EchoErr (''Invalid heading: '' @ heading @ ''. Valid: '' @ valid_styles)))
           (\<lambda>_. raise (Exit 1)))"

definition insert_command ::
  "'w remote \<Rightarrow> bool \<Rightarrow> string \<Rightarrow> string \<Rightarrow> int \<Rightarrow> string option \<Rightarrow> bool \<Rightarrow> bool \<Rightarrow>
   string option \<Rightarrow> ('w, unit) run" where
  "insert_command srv json_mode document_id text index heading bold_opt italic_opt account =
     (let requests = [];
          text_with_newline = text @ [NEWLINE];
          requests = requests @ [insert_text_request text_with_newline index None];
          end_index = index + int (length text_with_newline)
      in and_then
           (case heading of
              Some h \<Rightarrow>
                if h \<noteq> [] then
                  (case NamedStyleType_getitem (upper h) of
                     Inl e \<Rightarrow> invalid_heading h
                   | Inr style_type \<Rightarrow>
                       returns (requests @ [apply_named_style_request index end_index style_type None]))
                else returns requests
            | None \<Rightarrow> returns requests)
           (\<lambda>requests.
              and_then
                (if bold_opt \<or> italic_opt then
                   (case update_text_style_request index (index + int (length text))
                           (TextStyle_default\<lparr>bold := bold_opt, italic := italic_opt\<rparr>) None of
                      Inl e \<Rightarrow> raise e
                    | Inr r \<Rightarrow> returns (requests @ [r]))
                 else returns requests)
                (\<lambda>requests.
                   and_then (batch_update srv document_id requests account)
                     (\<lambda>_. if json_mode then
                            print_json (JDict [(''inserted'', JBool True), (''index'', JInt index),
                                               (''length'', JInt (int (length text)))])
                          else
                            print_success json_mode
                              (''Inserted '' @ str_int (int (length text)) @ '' characters at index ''
                               @ str_int index)))))"

text \<open>\<open>content[-1].get("endIndex", 1)\<close> on a non-empty body, and \<open>1\<close> on an empty one.\<close>

definition last_end_index :: "structural_element list \<Rightarrow> int" where
  "last_end_index content =
     (if content \<noteq> [] then (case endIndex (last content) of Some e \<Rightarrow> e | None \<Rightarrow> 1) else 1)"

definition append_command ::
  "'w remote \<Rightarrow> bool \<Rightarrow> string \<Rightarrow> string \<Rightarrow> string option \<Rightarrow> string option \<Rightarrow> ('w, unit) run" where
  "append_command srv json_mode document_id text heading account =
     (let requests = [];
          text_with_newline = text @ [NEWLINE];
          requests = requests @ [insert_text_at_end_request text_with_newline None]
      in and_then
           (if truthy_str heading then
              and_then (get_document_content srv document_id account)
                (\<lambda>doc_content.
                   let content = body_content doc_content;
                       end_index = last_end_index content
                   in and_then
                        (case NamedStyleType_getitem (upper (the heading)) of
                           Inl e \<Rightarrow> invalid_heading (the heading)
                         | Inr style_type \<Rightarrow> returns style_type)
                        (\<lambda>style_type.
                           and_then (batch_update srv document_id requests account)
                             (\<lambda>_. and_then (get_document_content srv document_id account)
                                (\<lambda>new_doc_content.
                                   let new_content = body_content new_doc_content
                                   in if new_content \<noteq> [] then
                                        (let new_end = last_end_index new_content;
                                             style_requests =
                                               [apply_named_style_request end_index (new_end - 1)
                                                  style_type None]
                                         in and_then
                                              (batch_update srv document_id style_requests account)
                                              (\<lambda>_. returns ()))
                                      else returns ()))))
            else and_then (batch_update srv document_id requests account) (\<lambda>_. returns ()))
           (\<lambda>_. if json_mode then
                  print_json (JDict [(''appended'', JBool True), (''length'', JInt (int (length text)))])
                else print_success json_mode (''Appended '' @ str_int (int (length text)) @ '' characters'')))"

section \<open>cli/table.py\<close>

record table_info =
  start_index :: "int option"
  end_index :: "int option"
  rows :: int
  columns :: int

fun find_tables_loop :: "structural_element list \<Rightarrow> table_info list \<Rightarrow> table_info list" where
  "find_tables_loop [] tables = tables"
| "find_tables_loop (element # rest) tables =
     find_tables_loop rest
       (case get_table element of
          Some t \<Rightarrow>
            tables @ [\<lparr>start_index = startIndex element, end_index = endIndex element,
                        rows = rows_of t, columns = columns_of t\<rparr>]
        | None \<Rightarrow> tables)"

definition find_tables :: "document \<Rightarrow> table_info list" where
  "find_tables doc_content = find_tables_loop (body_content doc_content) []"

text \<open>
  The four table commands open with the same statements: the read, \<open>_find_tables\<close>,
  the bounds check, \<open>tables[table_index]\<close> and the batch of the one request the command
  builds from the table; \<open>with_table\<close> is that opening, and \<open>table_not_found\<close> the body
  of the bounds check. The options \<open>--above\<close> and \<open>--left\<close> are \<open>above_opt\<close> and
  \<open>left_opt\<close>.
\<close>

definition table_not_found :: "int \<Rightarrow> table_info list \<Rightarrow> ('w, 'a) run" where
  "table_not_found table_index tables =
     and_then
       (emit (Echo (''Table index '' @ str_int table_index @ '' not found. Document has ''
                    @ str_int (int (length tables)) @ '' table(s).'')))
       (\<lambda>_. raise (Exit 1))"

definition with_table ::
  "'w remote \<Rightarrow> string \<Rightarrow> int \<Rightarrow> string option \<Rightarrow> (table_info \<Rightarrow> json list) \<Rightarrow> ('w, unit) run" where
  "with_table srv document_id table_index account build =
     and_then (get_document_content srv document_id account)
       (\<lambda>doc_content.
          let tables = find_tables doc_content
          in if table_index \<ge> int (length tables) then table_not_found table_index tables
             else (case getitem tables table_index of
                     Inl e \<Rightarrow> raise e
                   | Inr t \<Rightarrow>
                       and_then (batch_update srv document_id (build t) account) (\<lambda>_. returns ())))"

definition add_row_command ::
  "'w remote \<Rightarrow> bool \<Rightarrow> string \<Rightarrow> int \<Rightarrow> int \<Rightarrow> bool \<Rightarrow> string option \<Rightarrow> ('w, unit) run" where
  "add_row_command srv json_mode document_id table_index row above_opt account =
     and_then
       (with_table srv document_id table_index account
          (\<lambda>t. [insert_table_row_request (start_index t) row (\<not> above_opt)]))
       (\<lambda>_. let position = (if above_opt then ''above'' else ''below'')
            in if json_mode then
                 print_json (JDict [(''added_row'', JBool True), (''table_index'', JInt table_index),
                                    (''position'', JStr position)])
               else
                 print_success json_mode
                   (''Added row '' @ position @ '' row '' @ str_int row @ '' in table ''
                    @ str_int table_index))"

definition delete_row_command ::
  "'w remote \<Rightarrow> bool \<Rightarrow> string \<Rightarrow> int \<Rightarrow> int \<Rightarrow> string option \<Rightarrow> ('w, unit) run" where
  "delete_row_command srv json_mode document_id table_index row account =
     and_then
       (with_table srv document_id table_index account
          (\<lambda>t. [delete_table_row_request (start_index t) row]))
       (\<lambda>_. if json_mode then
              print_json (JDict [(''deleted_row'', JBool True), (''table_index'', JInt table_index),
                                 (''row'', JInt row)])
            else
              print_success json_mode
                (''Deleted row '' @ str_int row @ '' from table '' @ str_int table_index))"

definition add_column_command ::
  "'w remote \<Rightarrow> bool \<Rightarrow> string \<Rightarrow> int \<Rightarrow> int \<Rightarrow> bool \<Rightarrow> string option \<Rightarrow> ('w, unit) run" where
  "add_column_command srv json_mode document_id table_index column left_opt account =
     and_then
       (with_table srv document_id table_index account
          (\<lambda>t. [insert_table_column_request (start_index t) column (\<not> left_opt)]))
       (\<lambda>_. let position = (if left_opt then ''left of'' else ''right of'')
            in if json_mode then
                 print_json (JDict [(''added_column'', JBool True), (''table_index'', JInt table_index),
                                    (''position'', JStr position)])
               else
                 print_success json_mode
                   (''Added column '' @ position @ '' column '' @ str_int column @ '' in table ''
                    @ str_int table_index))"

definition delete_column_command ::
  "'w remote \<Rightarrow> bool \<Rightarrow> string \<Rightarrow> int \<Rightarrow> int \<Rightarrow> string option \<Rightarrow> ('w, unit) run" where
  "delete_column_command srv json_mode document_id table_index column account =
     and_then
       (with_table srv document_id table_index account
          (\<lambda>t. [delete_table_column_request (start_index t) column]))
       (\<lambda>_. if json_mode then
              print_json (JDict [(''deleted_column'', JBool True), (''table_index'', JInt table_index),
                                 (''column'', JInt column)])
            else
              print_success json_mode
                (''Deleted column '' @ str_int column @ '' from table '' @ str_int table_index))"

section \<open>services/auth.py: resolve\_account\<close>

text \<open>
  \<open>accounts\<close> is what \<open>list_accounts()\<close> returns, \<open>env_account\<close> the value of the
  environment variable \<open>GDOCS_ACCOUNT\<close> and \<open>default_account\<close> what \<open>get_default_account()\<close>
  returns; the credential store that owns them is outside the client's core. A name is
  read with \<^const>\<open>the\<close> only where \<^const>\<open>truthy_str\<close> has found one.
\<close>

definition resolve_account ::
  "string list \<Rightarrow> string option \<Rightarrow> string option \<Rightarrow> string option \<Rightarrow> exception + string" where
  "resolve_account accounts env_account default_account explicit_account =
     (if truthy_str explicit_account then
        (if the explicit_account \<notin> set accounts
         then Inl (AccountNotFoundError (the explicit_account) accounts)
         else Inr (the explicit_account))
      else if truthy_str env_account then
        (if the env_account \<notin> set accounts
         then Inl (AccountNotFoundError (the env_account) accounts)
         else Inr (the env_account))
      else if truthy_str default_account \<and> the default_account \<in> set accounts
      then Inr (the default_account)
      else if accounts \<noteq> [] then Inr (hd accounts)
      else Inl NoAccountConfiguredError)"

section \<open>Example documents\<close>



text \<open>A paragraph of one run with a named style, and a table as a body element.\<close>

definition text_paragraph :: "string \<Rightarrow> string option \<Rightarrow> structural_element" where
  "text_paragraph s style =
     StructuralElement None None (Some (Paragraph [ParagraphElement (Some (TextRun s))] style)) None"


section \<open>The plain-text rendering as the specification words it\<close>




section \<open>Field masks\<close>

text \<open>
  \<open>d[k1][k2]...\<close> on a payload. Then the two readings of ``the fields supplied'' of a
  \<open>TextStyle\<close>, each as the list of wire names in the order the builder visits them:
  \<open>truthy_fields\<close> are the fields whose value is true in a Python condition (\<open>True\<close>, a
  non-zero size, a non-empty string), \<open>nondefault_fields\<close> the fields whose value differs
  from the dataclass default, as the specification words it. \<open>color_parses\<close> holds of
  a colour the builder does not pass to \<open>_parse_color\<close>, or passes and gets a result for;
  \<open>keys_agree\<close> says that the two locals of the builder list the same names.
\<close>

fun at_path :: "json \<Rightarrow> string list \<Rightarrow> exception + json" where
  "at_path d [] = Inr d"
| "at_path d (k # ks) = (case item d k of Inl e \<Rightarrow> Inl e | Inr v \<Rightarrow> at_path v ks)"

definition truthy_fields :: "TextStyle \<Rightarrow> string list" where
  "truthy_fields st =
     (if bold st then [''bold''] else [])
     @ (if italic st then [''italic''] else [])
     @ (if underline st then [''underline''] else [])
     @ (if strikethrough st then [''strikethrough''] else [])
     @ (if truthy_float (font_size st) then [''fontSize''] else [])
     @ (if truthy_str (font_family st) then [''weightedFontFamily''] else [])
     @ (if truthy_str (link_url st) then [''link''] else [])
     @ (if truthy_str (foreground_color st) then [''foregroundColor''] else [])
     @ (if truthy_str (background_color st) then [''backgroundColor''] else [])"

definition nondefault_fields :: "TextStyle \<Rightarrow> string list" where
  "nondefault_fields st =
     (if bold st \<noteq> bold TextStyle_default then [''bold''] else [])
     @ (if italic st \<noteq> italic TextStyle_default then [''italic''] else [])
     @ (if underline st \<noteq> underline TextStyle_default then [''underline''] else [])
     @ (if strikethrough st \<noteq> strikethrough TextStyle_default then [''strikethrough''] else [])
     @ (if font_size st \<noteq> font_size TextStyle_default then [''fontSize''] else [])
     @ (if font_family st \<noteq> font_family TextStyle_default then [''weightedFontFamily''] else [])
     @ (if link_url st \<noteq> link_url TextStyle_default then [''link''] else [])
     @ (if foreground_color st \<noteq> foreground_color TextStyle_default then [''foregroundColor''] else [])
     @ (if background_color st \<noteq> background_color TextStyle_default then [''backgroundColor''] else [])"

definition color_parses :: "string option \<Rightarrow> bool" where
  "color_parses c = (case c of Some h \<Rightarrow> h = [] \<or> \<not> isl (parse_color h) | None \<Rightarrow> True)"

definition keys_agree :: "style_acc \<Rightarrow> bool" where
  "keys_agree acc = (map fst (fst acc) = snd acc)"

section \<open>Properties\<close>

subsection \<open>Builtins\<close>



subsection \<open>Markdown tables\<close>




subsection \<open>Account resolution\<close>

text \<open>
  C4. \<open>resolve_account\<close> takes the first of: the explicit name, the name from the
  environment, the configured default if it is still configured, the first configured
  account. A name given explicitly or by the environment that is not configured raises
  \<open>AccountNotFoundError\<close>; with no account configured and no name given it raises
  \<open>NoAccountConfiguredError\<close>. An empty string is no name, as \<open>None\<close> is none.
\<close>

theorem resolve_account_priority:
  "(explicit = Some a \<and> a \<noteq> [] \<and> a \<in> set accounts \<longrightarrow>
      resolve_account accounts env dflt explicit = Inr a) \<and>
   (explicit = Some a \<and> a \<noteq> [] \<and> a \<notin> set accounts \<longrightarrow>
      resolve_account accounts env dflt explicit = Inl (AccountNotFoundError a accounts)) \<and>
   (explicit \<in> {None, Some []} \<and> env = Some b \<and> b \<noteq> [] \<and> b \<in> set accounts \<longrightarrow>
      resolve_account accounts env dflt explicit = Inr b) \<and>
   (explicit \<in> {None, Some []} \<and> env = Some b \<and> b \<noteq> [] \<and> b \<notin> set accounts \<longrightarrow>
      resolve_account accounts env dflt explicit = Inl (AccountNotFoundError b accounts)) \<and>
   (explicit \<in> {None, Some []} \<and> env \<in> {None, Some []} \<and>
      dflt = Some d \<and> d \<noteq> [] \<and> d \<in> set accounts \<longrightarrow>
      resolve_account accounts env dflt explicit = Inr d) \<and>
   (explicit \<in> {None, Some []} \<and> env \<in> {None, Some []} \<and>
      (dflt \<in> {None, Some []} \<or> (\<exists>g. dflt = Some g \<and> g \<notin> set accounts)) \<and>
      accounts = c # cs \<longrightarrow>
      resolve_account accounts env dflt explicit = Inr c) \<and>
   (explicit \<in> {None, Some []} \<and> env \<in> {None, Some []} \<and> accounts = [] \<longrightarrow>
      resolve_account accounts env dflt explicit = Inl NoAccountConfiguredError)"
  by (auto simp: resolve_account_def truthy_str_def split: option.splits)

theorem resolve_account_priority_witness:
  "resolve_account [''a@x.org'', ''b@x.org''] (Some ''a@x.org'') (Some ''a@x.org'') (Some ''b@x.org'')
     = Inr ''b@x.org'' \<and>
   resolve_account [''a@x.org''] None None (Some ''z@x.org'')
     = Inl (AccountNotFoundError ''z@x.org'' [''a@x.org'']) \<and>
   resolve_account [''a@x.org'', ''b@x.org''] (Some ''b@x.org'') (Some ''a@x.org'') None
     = Inr ''b@x.org'' \<and>
   resolve_account [''a@x.org''] (Some ''z@x.org'') None (Some [])
     = Inl (AccountNotFoundError ''z@x.org'' [''a@x.org'']) \<and>
   resolve_account [''a@x.org'', ''b@x.org''] None (Some ''b@x.org'') None = Inr ''b@x.org'' \<and>
   resolve_account [''a@x.org'', ''b@x.org''] None (Some ''gone@x.org'') None = Inr ''a@x.org'' \<and>
   resolve_account [] None (Some ''gone@x.org'') None = Inl NoAccountConfiguredError"
  using
    resolve_account_priority [where explicit = "Some ''b@x.org''" and a = "''b@x.org''"
      and accounts = "[''a@x.org'', ''b@x.org'']" and env = "Some ''a@x.org''"
      and dflt = "Some ''a@x.org''"]
    resolve_account_priority [where explicit = "Some ''z@x.org''" and a = "''z@x.org''"
      and accounts = "[''a@x.org'']" and env = None and dflt = None]
    resolve_account_priority [where explicit = None and b = "''b@x.org''"
      and accounts = "[''a@x.org'', ''b@x.org'']" and env = "Some ''b@x.org''"
      and dflt = "Some ''a@x.org''"]
    resolve_account_priority [where explicit = "Some []" and b = "''z@x.org''"
      and accounts = "[''a@x.org'']" and env = "Some ''z@x.org''" and dflt = None]
    resolve_account_priority [where explicit = None and env = None and d = "''b@x.org''"
      and accounts = "[''a@x.org'', ''b@x.org'']" and dflt = "Some ''b@x.org''"]
    resolve_account_priority [where explicit = None and env = None and c = "''a@x.org''"
      and cs = "[''b@x.org'']" and accounts = "[''a@x.org'', ''b@x.org'']"
      and dflt = "Some ''gone@x.org''"]
    resolve_account_priority [where explicit = None and env = None and accounts = "[]"
      and dflt = "Some ''gone@x.org''"]
  by simp

subsection \<open>Reading paragraphs and cells\<close>









subsection \<open>Markdown projection of paragraphs\<close>

lemma content_to_markdown_loop_acc:
  "content_to_markdown_loop content acc =
     acc @ concat (map (\<lambda>element. content_to_markdown_loop [element] []) content)"
  by (induction content arbitrary: acc) (simp_all add: Let_def split: option.splits)

lemma content_to_markdown_loop_append:
  "content_to_markdown_loop (xs @ ys) [] =
     content_to_markdown_loop xs [] @ content_to_markdown_loop ys []"
  by (simp add: content_to_markdown_loop_acc [of "xs @ ys"] content_to_markdown_loop_acc [of xs]
        content_to_markdown_loop_acc [of ys])

lemma content_to_markdown_loop_Cons:
  "content_to_markdown_loop (x # ys) [] =
     content_to_markdown_loop [x] [] @ content_to_markdown_loop ys []"
  using content_to_markdown_loop_append [of "[x]" ys] by simp

text \<open>
  C7. A paragraph of the body contributes to the Markdown projection, between what the
  elements before it and after it contribute: nothing when its text is empty once the
  trailing newlines are stripped; otherwise one line, the text behind \<open>#\<close> for \<open>TITLE\<close>
  and \<open>HEADING_1\<close>, wrapped in \<open>*\<close> for \<open>SUBTITLE\<close>, behind two to six \<open>#\<close> for
  \<open>HEADING_2\<close> to \<open>HEADING_6\<close>, and as it is for \<open>NORMAL_TEXT\<close> or no named style.
\<close>

theorem content_to_markdown_paragraph:
  assumes "get_paragraph el = Some p"
    and "txt = rstrip_newline (extract_text_from_paragraph p)"
    and "style = get_paragraph_style p"
  shows "\<exists>lines.
           content_to_markdown (before @ el # after) =
             join [NEWLINE]
               (content_to_markdown_loop before [] @ lines @ content_to_markdown_loop after []) \<and>
           (txt = [] \<longrightarrow> lines = []) \<and>
           (txt \<noteq> [] \<and> (style = Some ''TITLE'' \<or> style = Some ''HEADING_1'') \<longrightarrow>
              lines = [''# '' @ txt @ [NEWLINE]]) \<and>
           (txt \<noteq> [] \<and> style = Some ''SUBTITLE'' \<longrightarrow> lines = [''*'' @ txt @ ''*'' @ [NEWLINE]]) \<and>
           (txt \<noteq> [] \<and> style = Some ''HEADING_2'' \<longrightarrow> lines = [''## '' @ txt @ [NEWLINE]]) \<and>
           (txt \<noteq> [] \<and> style = Some ''HEADING_3'' \<longrightarrow> lines = [''### '' @ txt @ [NEWLINE]]) \<and>
           (txt \<noteq> [] \<and> style = Some ''HEADING_4'' \<longrightarrow> lines = [''#### '' @ txt @ [NEWLINE]]) \<and>
           (txt \<noteq> [] \<and> style = Some ''HEADING_5'' \<longrightarrow> lines = [''##### '' @ txt @ [NEWLINE]]) \<and>
           (txt \<noteq> [] \<and> style = Some ''HEADING_6'' \<longrightarrow> lines = [''###### '' @ txt @ [NEWLINE]]) \<and>
           (txt \<noteq> [] \<and> (style = None \<or> style = Some ''NORMAL_TEXT'') \<longrightarrow>
              lines = [txt @ [NEWLINE]])"
proof -
  have split: "content_to_markdown (before @ el # after) =
      join [NEWLINE]
        (content_to_markdown_loop before [] @ content_to_markdown_loop [el] []
         @ content_to_markdown_loop after [])"
    unfolding content_to_markdown_def content_to_markdown_loop_append [of before "el # after"]
      content_to_markdown_loop_Cons [of el after]
    by (rule refl)
  have one: "content_to_markdown_loop [el] [] =
      (if txt = [] then [] else [heading_markdown style txt])"
    using assms by (simp add: Let_def)
  have whole: "content_to_markdown (before @ el # after) =
      join [NEWLINE]
        (content_to_markdown_loop before []
         @ (if txt = [] then [] else [heading_markdown style txt])
         @ content_to_markdown_loop after [])"
    by (simp only: split one)
  show ?thesis
    by (rule exI [of _ "if txt = [] then [] else [heading_markdown style txt]"])
       (simp add: whole heading_markdown_def)
qed

text \<open>
  One \<open>NORMAL_TEXT\<close> paragraph \<open>Hello\<close> is the line \<open>Hello\<close>, an empty heading is no
  line, and a title before a second-level heading gives two marked lines.
\<close>

theorem content_to_markdown_paragraph_witness:
  "content_to_markdown [text_paragraph (''Hello'' @ [NEWLINE]) (Some ''NORMAL_TEXT'')]
     = ''Hello'' @ [NEWLINE] \<and>
   content_to_markdown [text_paragraph [NEWLINE] (Some ''HEADING_1'')] = [] \<and>
   content_to_markdown [text_paragraph (''Intro'' @ [NEWLINE]) (Some ''TITLE''),
                        text_paragraph (''Why'' @ [NEWLINE]) (Some ''HEADING_2'')]
     = ''# Intro'' @ [NEWLINE, NEWLINE] @ ''## Why'' @ [NEWLINE]"
  using
    content_to_markdown_paragraph [of "text_paragraph (''Hello'' @ [NEWLINE]) (Some ''NORMAL_TEXT'')"
      "Paragraph [ParagraphElement (Some (TextRun (''Hello'' @ [NEWLINE])))] (Some ''NORMAL_TEXT'')"
      "''Hello''" "Some ''NORMAL_TEXT''" "[]" "[]"]
    content_to_markdown_paragraph [of "text_paragraph [NEWLINE] (Some ''HEADING_1'')"
      "Paragraph [ParagraphElement (Some (TextRun [NEWLINE]))] (Some ''HEADING_1'')"
      "[]" "Some ''HEADING_1''" "[]" "[]"]
    content_to_markdown_paragraph [of "text_paragraph (''Why'' @ [NEWLINE]) (Some ''HEADING_2'')"
      "Paragraph [ParagraphElement (Some (TextRun (''Why'' @ [NEWLINE])))] (Some ''HEADING_2'')"
      "''Why''" "Some ''HEADING_2''" "[text_paragraph (''Intro'' @ [NEWLINE]) (Some ''TITLE'')]" "[]"]
  by (auto simp: text_paragraph_def extract_text_from_paragraph_def rstrip_newline_def rstrip_def
        get_paragraph_style_def heading_markdown_def)

subsection \<open>Plain text\<close>






subsection \<open>Text-style field masks\<close>

lemma update_fresh: "k \<notin> fst ` set al \<Longrightarrow> AList.update k v al = al @ [(k, v)]"
  by (induction al) auto

lemma keys_agree_put:
  "keys_agree acc \<Longrightarrow> k \<notin> set (snd acc) \<Longrightarrow> keys_agree (put k v acc)"
  unfolding keys_agree_def put_def
  by (metis (no_types, lifting) fst_conv list.set_map list.simps(8,9) map_append snd_conv update_fresh)

lemma snd_put: "snd (put k v acc) = snd acc @ [k]"
  by (simp add: put_def)

lemma step_props:
  assumes "keys_agree acc" and "k \<notin> set (snd acc)"
  shows "keys_agree (if c then put k v acc else acc)"
    and "snd (if c then put k v acc else acc) = snd acc @ (if c then [k] else [])"
  using assms by (simp_all add: keys_agree_put snd_put)

lemma case_float_step:
  "(case x of Some q \<Rightarrow> if q \<noteq> 0 then put k (f q) acc else acc | None \<Rightarrow> acc) =
     (if truthy_float x then put k (f (the x)) acc else acc)"
  by (cases x) (simp_all add: truthy_float_def)

lemma case_str_step:
  "(case x of Some s \<Rightarrow> if s \<noteq> [] then put k (f s) acc else acc | None \<Rightarrow> acc) =
     (if truthy_str x then put k (f (the x)) acc else acc)"
  by (cases x) (simp_all add: truthy_str_def)

lemma int16_error: "int16 s = Inl e \<Longrightarrow> e = ValueError"
  by (simp add: int16_def Let_def split: if_splits)

lemma parse_color_error: "parse_color h = Inl e \<Longrightarrow> e = ValueError"
  by (auto simp: parse_color_def Let_def split: sum.splits dest: int16_error)

lemma put_color_Inl:
  "put_color k c acc = Inl e \<Longrightarrow> e = ValueError \<and> \<not> color_parses c"
  by (auto simp: put_color_def color_parses_def split: option.splits if_splits sum.splits
        dest: parse_color_error)

lemma put_color_Inr:
  assumes "put_color k c acc = Inr acc'" and "keys_agree acc" and "k \<notin> set (snd acc)"
  shows "keys_agree acc'"
    and "snd acc' = snd acc @ (if truthy_str c then [k] else [])"
    and "color_parses c"
  using assms
  by (auto simp: put_color_def color_parses_def truthy_str_def keys_agree_put snd_put
        split: option.splits if_splits sum.splits)

text \<open>
  C5, as the code has it. When \<open>update_text_style_request\<close> returns a descriptor, its
  \<open>fields\<close> string is the comma-joined list of the wire names of the fields whose value
  is truthy, and the keys of its \<open>textStyle\<close> object are exactly that list, in that
  order. It returns one exactly when every truthy colour parses; otherwise it raises
  \<open>ValueError\<close>.
\<close>

theorem update_text_style_request_fields:
  "case update_text_style_request s e st seg of
     Inr d \<Rightarrow>
       at_path d [''updateTextStyle'', ''fields''] = Inr (JStr (join '','' (truthy_fields st))) \<and>
       (\<exists>ts. at_path d [''updateTextStyle'', ''textStyle''] = Inr ts \<and>
             keys ts = truthy_fields st) \<and>
       color_parses (foreground_color st) \<and> color_parses (background_color st)
   | Inl ex \<Rightarrow>
       ex = ValueError \<and>
       \<not> (color_parses (foreground_color st) \<and> color_parses (background_color st))"
proof -
  define a1 where "a1 = (if bold st then put ''bold'' (JBool True) ([], []) else ([], []))"
  define a2 where "a2 = (if italic st then put ''italic'' (JBool True) a1 else a1)"
  define a3 where "a3 = (if underline st then put ''underline'' (JBool True) a2 else a2)"
  define a4 where "a4 = (if strikethrough st then put ''strikethrough'' (JBool True) a3 else a3)"
  define a5 where "a5 = (if truthy_float (font_size st)
                         then put ''fontSize'' (JDict [(''magnitude'', JFloat (the (font_size st))),
                                                       (''unit'', JStr ''PT'')]) a4 else a4)"
  define a6 where "a6 = (if truthy_str (font_family st)
                         then put ''weightedFontFamily''
                                (JDict [(''fontFamily'', JStr (the (font_family st)))]) a5 else a5)"
  define a7 where "a7 = (if truthy_str (link_url st)
                         then put ''link'' (JDict [(''url'', JStr (the (link_url st)))]) a6 else a6)"
  define descriptor where "descriptor = (\<lambda>acc :: style_acc.
     JDict [(''updateTextStyle'',
       JDict [(''range'', JDict (with_segment_id seg
                                   [(''startIndex'', JInt s), (''endIndex'', JInt e)])),
              (''textStyle'', JDict (fst acc)),
              (''fields'', JStr (join '','' (snd acc)))])])"
  have body: "update_text_style_request s e st seg =
      (case put_color ''foregroundColor'' (foreground_color st) a7 of
         Inl ex \<Rightarrow> Inl ex
       | Inr a8 \<Rightarrow>
           (case put_color ''backgroundColor'' (background_color st) a8 of
              Inl ex \<Rightarrow> Inl ex
            | Inr a9 \<Rightarrow> Inr (descriptor a9)))"
    unfolding update_text_style_request_def Let_def case_float_step case_str_step
      a7_def a6_def a5_def a4_def a3_def a2_def a1_def descriptor_def
    by (rule refl)
  have k0: "keys_agree (([], []) :: style_acc)" by (simp add: keys_agree_def)
  have k1: "keys_agree a1" and s1: "snd a1 = (if bold st then [''bold''] else [])"
    unfolding a1_def using step_props [OF k0, of "''bold''"] by simp_all
  have k2: "keys_agree a2" and s2: "snd a2 = snd a1 @ (if italic st then [''italic''] else [])"
    unfolding a2_def using step_props [OF k1, of "''italic''"] by (simp_all add: s1)
  have k3: "keys_agree a3" and s3: "snd a3 = snd a2 @ (if underline st then [''underline''] else [])"
    unfolding a3_def using step_props [OF k2, of "''underline''"] by (simp_all add: s1 s2)
  have k4: "keys_agree a4"
    and s4: "snd a4 = snd a3 @ (if strikethrough st then [''strikethrough''] else [])"
    unfolding a4_def using step_props [OF k3, of "''strikethrough''"] by (simp_all add: s1 s2 s3)
  have k5: "keys_agree a5"
    and s5: "snd a5 = snd a4 @ (if truthy_float (font_size st) then [''fontSize''] else [])"
    unfolding a5_def using step_props [OF k4, of "''fontSize''"] by (simp_all add: s1 s2 s3 s4)
  have k6: "keys_agree a6"
    and s6: "snd a6 = snd a5 @ (if truthy_str (font_family st) then [''weightedFontFamily''] else [])"
    unfolding a6_def using step_props [OF k5, of "''weightedFontFamily''"]
    by (simp_all add: s1 s2 s3 s4 s5)
  have k7: "keys_agree a7"
    and s7: "snd a7 = snd a6 @ (if truthy_str (link_url st) then [''link''] else [])"
    unfolding a7_def using step_props [OF k6, of "''link''"]
    by (simp_all add: s1 s2 s3 s4 s5 s6)
  have fresh7: "''foregroundColor'' \<notin> set (snd a7)"
    by (simp add: s1 s2 s3 s4 s5 s6 s7)
  show ?thesis
  proof (cases "put_color ''foregroundColor'' (foreground_color st) a7")
    case (Inl ex)
    then show ?thesis using put_color_Inl [OF Inl] by (simp add: body)
  next
    case fg: (Inr a8)
    note k8 = put_color_Inr(1) [OF fg k7 fresh7]
      and s8 = put_color_Inr(2) [OF fg k7 fresh7]
      and p8 = put_color_Inr(3) [OF fg k7 fresh7]
    have fresh8: "''backgroundColor'' \<notin> set (snd a8)"
      by (simp add: s1 s2 s3 s4 s5 s6 s7 s8)
    show ?thesis
    proof (cases "put_color ''backgroundColor'' (background_color st) a8")
      case (Inl ex)
      then show ?thesis using put_color_Inl [OF Inl] by (simp add: body fg)
    next
      case bg: (Inr a9)
      note k9 = put_color_Inr(1) [OF bg k8 fresh8]
        and s9 = put_color_Inr(2) [OF bg k8 fresh8]
        and p9 = put_color_Inr(3) [OF bg k8 fresh8]
      have names: "snd a9 = truthy_fields st"
        by (simp only: s9 s8 s7 s6 s5 s4 s3 s2 s1 truthy_fields_def append_assoc)
      have keys9: "map fst (fst a9) = truthy_fields st"
        using k9 names by (simp add: keys_agree_def)
      have res: "update_text_style_request s e st seg = Inr (descriptor a9)"
        by (simp add: body fg bg)
      show ?thesis
        by (simp add: res descriptor_def item_def keys_def names keys9 p8 p9)
    qed
  qed
qed

text \<open>\<open>TextStyle(bold=True)\<close> gives \<open>fields == "bold"\<close> and \<open>textStyle == {"bold": True}\<close>.\<close>

theorem update_text_style_request_fields_witness:
  "(\<exists>d. update_text_style_request 0 10 (TextStyle_default\<lparr>bold := True\<rparr>) None = Inr d \<and>
        at_path d [''updateTextStyle'', ''fields''] = Inr (JStr ''bold'') \<and>
        at_path d [''updateTextStyle'', ''textStyle''] = Inr (JDict [(''bold'', JBool True)])) \<and>
   update_text_style_request 0 10 (TextStyle_default\<lparr>foreground_color := Some ''red''\<rparr>) None
     = Inl ValueError"
proof -
  have built: "update_text_style_request 0 10 (TextStyle_default\<lparr>bold := True\<rparr>) None =
      Inr (JDict [(''updateTextStyle'',
             JDict [(''range'', JDict [(''startIndex'', JInt 0), (''endIndex'', JInt 10)]),
                    (''textStyle'', JDict [(''bold'', JBool True)]),
                    (''fields'', JStr ''bold'')])])"
    by (simp add: update_text_style_request_def TextStyle_default_def put_def put_color_def
          with_segment_id_def)
  have bad: "\<not> color_parses (Some ''red'')"
    by (simp add: color_parses_def parse_color_def lstrip_hash_def lstrip_def slice_def int16_def
          int_isspace_def hex_digit_def Let_def)
  show ?thesis
    using update_text_style_request_fields [where s = 0 and e = 10
        and st = "TextStyle_default\<lparr>bold := True\<rparr>" and seg = None]
      update_text_style_request_fields [where s = 0 and e = 10
        and st = "TextStyle_default\<lparr>foreground_color := Some ''red''\<rparr>" and seg = None]
      bad
    by (auto simp: built item_def split: sum.splits)
qed

text \<open>
  C5 as stated fails at \<open>TextStyle(font_size=0.0)\<close>: the size is supplied and is not
  the default \<open>None\<close>, yet neither \<open>fields\<close> nor \<open>textStyle\<close> names it.
\<close>

theorem update_text_style_request_counterexample:
  "nondefault_fields (TextStyle_default\<lparr>font_size := Some 0\<rparr>) = [''fontSize''] \<and>
   update_text_style_request 0 10 (TextStyle_default\<lparr>font_size := Some 0\<rparr>) None =
     Inr (JDict [(''updateTextStyle'',
            JDict [(''range'', JDict [(''startIndex'', JInt 0), (''endIndex'', JInt 10)]),
                   (''textStyle'', JDict []),
                   (''fields'', JStr [])])])"
  by (simp add: nondefault_fields_def update_text_style_request_def TextStyle_default_def
        put_def put_color_def with_segment_id_def)

end
